theory Spec2Isabelle
  imports Complex_Main "HOL-Library.Char_ord"
begin

section \<open>Outcomes of calls\<close>

text \<open>
  The hooks of \<^verbatim>\<open>cogs/chat_hooks\<close> are Python coroutines. A call either returns a
  value, raises, or never completes. \<^verbatim>\<open>RuntimeError\<close> and every other subclass of
  \<^verbatim>\<open>Exception\<close> are caught by \<^verbatim>\<open>except Exception\<close>;
  \<^verbatim>\<open>asyncio.CancelledError\<close> derives from \<^verbatim>\<open>BaseException\<close> only and is not.
  Calls to \<^verbatim>\<open>print\<close> are left out of the model.
\<close>

datatype exn = RuntimeError string | Exception string | CancelledError

fun is_Exception :: "exn \<Rightarrow> bool" where
  "is_Exception (RuntimeError _) = True"
| "is_Exception (Exception _) = True"
| "is_Exception CancelledError = False"

datatype 'a result = Returns 'a | Raises exn | Diverges


section \<open>The Python string operations the hooks use\<close>

text \<open>
  A Python \<^verbatim>\<open>str\<close> is modelled as a \<^typ>\<open>string\<close> whose characters are the code
  points U+0000 to U+00FF; text with code points beyond U+00FF is outside the model.
  On that range \<^verbatim>\<open>str.strip()\<close> and the pattern \<^verbatim>\<open>\s\<close> remove the characters of
  \<open>whitespace\<close>, \<^verbatim>\<open>\d\<close> matches the ten ASCII digits, and \<^verbatim>\<open>str.lower()\<close>
  adds 32 to the capital letters A to Z and U+00C0 to U+00DE (U+00D7 excepted).
\<close>

definition whitespace :: "char list" where
  "whitespace = [CHR 0x09, CHR 0x0A, CHR 0x0B, CHR 0x0C, CHR 0x0D, CHR 0x1C, CHR 0x1D,
                 CHR 0x1E, CHR 0x1F, CHR 0x20, CHR 0x85, CHR 0xA0]"

definition is_space :: "char \<Rightarrow> bool" where
  "is_space c = (c \<in> set whitespace)"

definition is_digit :: "char \<Rightarrow> bool" where
  "is_digit c = (CHR ''0'' \<le> c \<and> c \<le> CHR ''9'')"

definition strip :: "string \<Rightarrow> string" where
  "strip s = rev (dropWhile is_space (rev (dropWhile is_space s)))"

definition startswith :: "string \<Rightarrow> string \<Rightarrow> bool" where
  "startswith s p = (take (length p) s = p)"

definition lower_char :: "char \<Rightarrow> char" where
  "lower_char c =
     (if (CHR ''A'' \<le> c \<and> c \<le> CHR ''Z'') \<or> (CHR 0xC0 \<le> c \<and> c \<le> CHR 0xDE \<and> c \<noteq> CHR 0xD7)
      then (case c of Char b0 b1 b2 b3 b4 b5 b6 b7 \<Rightarrow> Char b0 b1 b2 b3 b4 True b6 b7)
      else c)"

definition lower :: "string \<Rightarrow> string" where
  "lower s = map lower_char s"

text \<open>\<^verbatim>\<open>s.replace(old, new)\<close> for a non-empty \<open>old\<close>, scanning from the left.\<close>

fun replace :: "string \<Rightarrow> string \<Rightarrow> string \<Rightarrow> string" where
  "replace old new [] = []"
| "replace old new (c # cs) =
     (if old \<noteq> [] \<and> take (length old) (c # cs) = old
      then new @ replace old new (drop (length old) (c # cs))
      else c # replace old new cs)"

text \<open>
  \<^verbatim>\<open>str.splitlines()\<close>: a line ends at LF, CR, CR LF, VT, FF, FS, GS, RS or NEL; the
  breaks are dropped and no empty line is added after a final break.
\<close>

fun splitlines_from :: "string \<Rightarrow> string \<Rightarrow> string list" where
  "splitlines_from cur [] = (if cur = [] then [] else [cur])"
| "splitlines_from cur (c # cs) =
     (if c = CHR 0x0D \<and> take 1 cs = [CHR 0x0A] then cur # splitlines_from [] (tl cs)
      else if c \<in> set [CHR 0x0A, CHR 0x0D, CHR 0x0B, CHR 0x0C, CHR 0x1C, CHR 0x1D, CHR 0x1E,
                       CHR 0x85]
      then cur # splitlines_from [] cs
      else splitlines_from (cur @ [c]) cs)"

definition splitlines :: "string \<Rightarrow> string list" where
  "splitlines s = splitlines_from [] s"

text \<open>\<^verbatim>\<open>sep.join(xs)\<close> and the substring test \<^verbatim>\<open>needle in hay\<close>.\<close>

fun join :: "string \<Rightarrow> string list \<Rightarrow> string" where
  "join sep [] = []"
| "join sep [x] = x"
| "join sep (x # y # ys) = x @ sep @ join sep (y # ys)"

fun str_in :: "string \<Rightarrow> string \<Rightarrow> bool" where
  "str_in needle [] = (needle = [])"
| "str_in needle (c # cs) = (take (length needle) (c # cs) = needle \<or> str_in needle cs)"

text \<open>\<^verbatim>\<open>str(n)\<close> of an integer, as the f-strings render identifiers and counts.\<close>

fun nat_digits :: "nat \<Rightarrow> string" where
  "nat_digits n =
     (if n < 10 then [''0123456789'' ! n]
      else nat_digits (n div 10) @ [''0123456789'' ! (n mod 10)])"

declare nat_digits.simps [simp del]

definition py_int_str :: "int \<Rightarrow> string" where
  "py_int_str i = (if i < 0 then ''-'' @ nat_digits (nat (- i)) else nat_digits (nat i))"

text \<open>The slice \<^verbatim>\<open>xs[:n]\<close>; a negative \<open>n\<close> counts from the end.\<close>

definition py_slice_to :: "'a list \<Rightarrow> int \<Rightarrow> 'a list" where
  "py_slice_to xs n = (if 0 \<le> n then take (nat n) xs else take (length xs - nat (- n)) xs)"


section \<open>Line expansion\<close>

text \<open>
  \<^verbatim>\<open>_expand_lines\<close> is the same code in \<^verbatim>\<open>MikuFearLineGenerator\<close> and in both
  \<^verbatim>\<open>TetoMikuDualMentionHook\<close> classes. Its \<^verbatim>\<open>while\<close> loop is \<open>extend_loop\<close>:
  the value \<open>None\<close> stands for a loop that never exits.
\<close>

partial_function (option) extend_loop :: "'a list \<Rightarrow> 'a list \<Rightarrow> int \<Rightarrow> 'a list option" where
  "extend_loop base_lines extended target_count =
     (if int (length extended) < target_count
      then extend_loop base_lines (extended @ base_lines) target_count
      else Some extended)"

definition expand_lines :: "'a list \<Rightarrow> int \<Rightarrow> 'a list option" where
  "expand_lines base_lines target_count =
     (if target_count \<le> int (length base_lines) then Some (py_slice_to base_lines target_count)
      else (case extend_loop base_lines base_lines target_count of
              None \<Rightarrow> None
            | Some extended \<Rightarrow> Some (py_slice_to extended target_count)))"


section \<open>Configuration and messages\<close>

text \<open>
  The fields of \<^verbatim>\<open>config.Settings\<close> and of \<^verbatim>\<open>discord.Message\<close> that the hooks
  read. \<open>teto_wait_miku_timeout_seconds\<close> is the configured number, before the hook passes
  it to \<^verbatim>\<open>float\<close>.
\<close>

record Settings =
  dual_mention_hook_enabled :: bool
  teto_bot_id :: int
  miku_bot_id :: int
  teto_fear_message_count :: int
  teto_wait_miku_timeout_seconds :: real

record User =
  user_id :: int
  user_bot :: bool

record Message =
  message_id :: int
  message_channel_id :: int
  author :: User
  mentions :: "User list"
  message_content :: string
  message_clean_content :: string

definition is_dual_mention_trigger :: "Settings \<Rightarrow> Message \<Rightarrow> bool" where
  "is_dual_mention_trigger settings message =
     (let mention_ids = set (map user_id (mentions message))
      in teto_bot_id settings \<in> mention_ids \<and> miku_bot_id settings \<in> mention_ids)"


section \<open>The generated-script strategy: \<^verbatim>\<open>MikuFearLineGenerator\<close>\<close>

text \<open>
  \<^verbatim>\<open>json.loads\<close> and \<^verbatim>\<open>str\<close> on a decoded value belong to the Python library and
  are parameters of the model (\<open>json_loads\<close> is \<open>None\<close> where the decoder raises
  \<^verbatim>\<open>JSONDecodeError\<close>; a decoder that fails in another way is not covered), as are the
  text-generation client and the injected \<^verbatim>\<open>normalize_model_reply\<close>.
\<close>

datatype json = JNull | JBool bool | JInt int | JFloat string | JStr string
  | JList "json list" | JDict "(string \<times> json) list"

record pylib =
  json_loads :: "string \<Rightarrow> json option"
  py_str :: "json \<Rightarrow> string"

record MikuFearLineGenerator =
  client_generate :: "string \<Rightarrow> string result"
  generator_settings :: Settings
  normalize_model_reply :: "string \<Rightarrow> string"

text \<open>
  \<^verbatim>\<open>HOOK_LINE_PREFIX_PATTERN.sub("", raw_line)\<close> for the pattern
  \<^verbatim>\<open>^\s*(?:[-*]|\d+[.)])\s*\<close>: it can match at the start of the line only.
\<close>

definition strip_line_prefix :: "string \<Rightarrow> string" where
  "strip_line_prefix raw_line =
     (let rest = dropWhile is_space raw_line
      in case rest of
           [] \<Rightarrow> raw_line
         | c # cs \<Rightarrow>
             if c = CHR ''-'' \<or> c = CHR ''*'' then dropWhile is_space cs
             else (let after = dropWhile is_digit rest
                   in if takeWhile is_digit rest \<noteq> []
                         \<and> (case after of [] \<Rightarrow> False | d # _ \<Rightarrow> d = CHR ''.'' \<or> d = CHR '')'')
                      then dropWhile is_space (tl after)
                      else raw_line))"

definition extract_lines_from_text :: "pylib \<Rightarrow> string \<Rightarrow> string list" where
  "extract_lines_from_text lib text =
     (let candidate = strip text;
          stripped_items = map (\<lambda>item. strip (py_str lib item));
          (parsed_lines, candidate) =
            (if startswith candidate ''['' \<or> startswith candidate ''{''
             then (case json_loads lib candidate of
                     Some (JList items) \<Rightarrow> (stripped_items items, candidate)
                   | Some (JDict decoded) \<Rightarrow>
                       (case map_of decoded ''lines'' of
                          Some (JList items) \<Rightarrow> (stripped_items items, candidate)
                        | _ \<Rightarrow> (case map_of decoded ''answer'' of
                                  Some (JStr answer_obj) \<Rightarrow> ([], answer_obj)
                                | _ \<Rightarrow> ([], candidate)))
                   | _ \<Rightarrow> ([], candidate))
             else ([], candidate));
          parsed_lines =
            (if parsed_lines = []
             then filter (\<lambda>cleaned. cleaned \<noteq> [])
                    (map (\<lambda>raw_line. strip (strip_line_prefix raw_line))
                       (splitlines (strip (replace ''```'' [] candidate))))
             else parsed_lines)
      in filter (\<lambda>line. line \<noteq> []) parsed_lines)"

text \<open>
  \<^verbatim>\<open>MATERIAL_WORD_PATTERN.findall\<close> for \<^verbatim>\<open>[A-Za-z0-9']{4,}\<close>: the maximal runs of
  word characters that are at least four characters long.
\<close>

definition is_material_char :: "char \<Rightarrow> bool" where
  "is_material_char c =
     ((CHR ''A'' \<le> c \<and> c \<le> CHR ''Z'') \<or> (CHR ''a'' \<le> c \<and> c \<le> CHR ''z'')
      \<or> (CHR ''0'' \<le> c \<and> c \<le> CHR ''9'') \<or> c = CHR 0x27)"

fun material_runs :: "string \<Rightarrow> string \<Rightarrow> string list" where
  "material_runs cur [] = (if 4 \<le> length cur then [cur] else [])"
| "material_runs cur (c # cs) =
     (if is_material_char c then material_runs (cur @ [c]) cs
      else if 4 \<le> length cur then cur # material_runs [] cs
      else material_runs [] cs)"

definition MATERIAL_STOPWORDS :: "string list" where
  "MATERIAL_STOPWORDS = [''this'', ''that'', ''with'', ''from'', ''your'', ''have'', ''will'',
     ''just'', ''what'', ''when'', ''where'', ''which'', ''about'', ''please'']"

fun collect_material :: "string list \<Rightarrow> string list \<Rightarrow> string list" where
  "collect_material material [] = material"
| "collect_material material (word # raw_words) =
     (if word \<in> set MATERIAL_STOPWORDS then collect_material material raw_words
      else if word \<in> set material then collect_material material raw_words
      else if 8 \<le> length (material @ [word]) then material @ [word]
      else collect_material (material @ [word]) raw_words)"

definition extract_material_words :: "string \<Rightarrow> string list" where
  "extract_material_words text = collect_material [] (material_runs [] (lower text))"

definition has_material_overlap :: "string list \<Rightarrow> string list \<Rightarrow> bool" where
  "has_material_overlap lines material_words =
     (let haystack = lower (join '' '' lines)
      in list_ex (\<lambda>word. str_in word haystack) (take 5 material_words))"

definition empty_output :: exn where
  "empty_output = RuntimeError ''Hook line generator returned empty output.''"

definition unparseable_output :: exn where
  "unparseable_output = RuntimeError ''Hook line generator returned unparseable output.''"

definition ignored_material :: exn where
  "ignored_material = RuntimeError ''Hook line generator ignored user material words.''"

definition mention_token :: "int \<Rightarrow> string" where
  "mention_token required_mention_id = ''<@'' @ py_int_str required_mention_id @ ''>''"

definition parse_lines ::
  "MikuFearLineGenerator \<Rightarrow> pylib \<Rightarrow> string \<Rightarrow> int \<Rightarrow> int \<Rightarrow> string list \<Rightarrow> string list result"
where
  "parse_lines self lib raw_output line_count required_mention_id material_words =
     (let normalized = strip (normalize_model_reply self raw_output)
      in if normalized = [] then Raises empty_output
         else
           (let lines = extract_lines_from_text lib normalized
            in if lines = [] then Raises unparseable_output
               else
                 (let lines =
                        (if \<not> str_in (mention_token required_mention_id) (join '' '' lines)
                         then lines[0 := mention_token required_mention_id @ '' '' @ lines ! 0]
                         else lines)
                  in if material_words \<noteq> [] \<and> \<not> has_material_overlap lines material_words
                     then Raises ignored_material
                     else (case expand_lines lines line_count of
                             None \<Rightarrow> Diverges
                           | Some expanded \<Rightarrow> Returns expanded))))"

definition build_miku_tease_prompt ::
  "MikuFearLineGenerator \<Rightarrow> string \<Rightarrow> int \<Rightarrow> string list \<Rightarrow> int \<Rightarrow> string"
where
  "build_miku_tease_prompt self content line_count material_words trigger_user_id =
     (let material_hint = (if material_words \<noteq> [] then join '', '' material_words else ''none'');
          nl = [CHR 0x0A]
      in ''[hidden_hook:miku_fear]'' @ nl
         @ ''Context: user mentioned both Teto and Miku in the same message.'' @ nl
         @ ''Behavior: Miku speaks first and intimidates Teto with controlled threats.'' @ nl
         @ ''Session turn: 1/'' @ py_int_str line_count @ nl
         @ ''Trigger user id: '' @ py_int_str trigger_user_id @ nl
         @ ''KProfessional assertiveness.'' @ nl
         @ ''Teto message:'' @ nl
         @ content @ nl
         @ ''Output requirements:'' @ nl
         @ ''- Write exactly '' @ py_int_str line_count @ '' short lines.'' @ nl
         @ ''- English only.'' @ nl
         @ ''- Tone: dominant, intimidating, sharp. No gore, no real-world violence.'' @ nl
         @ ''- No markdown, no numbering, no bullet points.'' @ nl
         @ ''- One line per sentence, max 120 characters per line.'' @ nl
         @ ''- First line must include <@'' @ py_int_str (teto_bot_id (generator_settings self)) @ ''>.'' @ nl
         @ ''- At least 2 lines must reuse/remix words or ideas from Teto message.'' @ nl
         @ ''- Preferred material words: '' @ material_hint @ ''.'' @ nl
         @ ''Return only the lines.'')"

definition generate_miku_tease_lines ::
  "MikuFearLineGenerator \<Rightarrow> pylib \<Rightarrow> Message \<Rightarrow> int \<Rightarrow> string list result"
where
  "generate_miku_tease_lines self lib message line_count =
     (let content =
            (if strip (message_clean_content message) \<noteq> []
             then strip (message_clean_content message)
             else if strip (message_content message) \<noteq> [] then strip (message_content message)
             else ''(empty)'');
          material_words = extract_material_words content;
          prompt = build_miku_tease_prompt self content line_count material_words
                     (user_id (author message))
      in case client_generate self prompt of
           Diverges \<Rightarrow> Diverges
         | Raises e \<Rightarrow> Raises e
         | Returns raw \<Rightarrow>
             parse_lines self lib raw line_count (teto_bot_id (generator_settings self)) material_words)"


section \<open>The sequenced output runner\<close>

text \<open>
  \<^verbatim>\<open>_run_sequence\<close> is the same code in both hook classes and touches
  \<^verbatim>\<open>self.active_channels\<close> only. The channel is a parameter: for the line at position
  \<open>index\<close>, \<open>typing_sleep\<close> is the outcome of the \<^verbatim>\<open>async with channel.typing()\<close>
  block around \<^verbatim>\<open>asyncio.sleep(delay_seconds)\<close> and \<open>send\<close> the outcome of
  \<^verbatim>\<open>channel.send\<close>. A delivered line is recorded with the set of active channels at the
  moment it is sent. The run is modelled on its own, with no other task changing the set
  while it is suspended.
\<close>

record Messageable =
  typing_sleep :: "nat \<Rightarrow> real \<Rightarrow> unit result"
  send :: "nat \<Rightarrow> string \<Rightarrow> unit result"

fun deliver ::
  "Messageable \<Rightarrow> int set \<Rightarrow> nat \<Rightarrow> string list \<Rightarrow> (string \<times> int set) list \<times> unit result"
where
  "deliver channel active index [] = ([], Returns ())"
| "deliver channel active index (line # lines) =
     (let delay_seconds = (if index = 0 then 8 / 10 else 12 / 10)
      in case typing_sleep channel index delay_seconds of
           Raises e \<Rightarrow> ([], Raises e)
         | Diverges \<Rightarrow> ([], Diverges)
         | Returns _ \<Rightarrow>
             (case send channel index line of
                Raises e \<Rightarrow> ([], Raises e)
              | Diverges \<Rightarrow> ([], Diverges)
              | Returns _ \<Rightarrow>
                  (let (sent, outcome) = deliver channel active (Suc index) lines
                   in ((line, active) # sent, outcome))))"

text \<open>
  The result is the set of active channels the run leaves behind, the lines it delivered
  and how it ended. \<open>Diverges\<close> is a run that hangs in an \<^verbatim>\<open>await\<close> for ever: the
  \<^verbatim>\<open>finally\<close> block has not run.
\<close>

definition run_sequence ::
  "Messageable \<Rightarrow> int set \<Rightarrow> int \<Rightarrow> int \<Rightarrow> string list
     \<Rightarrow> int set \<times> (string \<times> int set) list \<times> unit result"
where
  "run_sequence channel active_set channel_id trigger_id lines =
     (let active = insert channel_id active_set;
          (sent, outcome) = deliver channel active 0 lines
      in case outcome of
           Diverges \<Rightarrow> (active, sent, Diverges)
         | Returns _ \<Rightarrow> (active - {channel_id}, sent, Returns ())
         | Raises e \<Rightarrow>
             if is_Exception e then (active - {channel_id}, sent, Returns ())
             else (active - {channel_id}, sent, Raises e))"


section \<open>The static-script hook: \<^verbatim>\<open>teto_miku_interaction.py\<close>\<close>

text \<open>
  The readings of \<^verbatim>\<open>time.monotonic()\<close> and the timeout are Python floats. Their
  arithmetic is a parameter of the model: \<open>'f\<close> is the type of floats, \<open>to_float\<close> is
  \<^verbatim>\<open>float(x)\<close>, \<open>float_sub\<close> is the subtraction as the machine computes it (with its
  rounding), and \<open>float_compare\<close> is the comparison of two floats, which yields exactly one
  of four relations (the fourth for a NaN operand). \<^verbatim>\<open>x > y\<close> and \<^verbatim>\<open>x <= y\<close> are read
  off that relation.
\<close>

datatype float_order = FloatLess | FloatEqual | FloatGreater | FloatUnordered

record 'f float_arith =
  to_float :: "real \<Rightarrow> 'f"
  float_sub :: "'f \<Rightarrow> 'f \<Rightarrow> 'f"
  float_compare :: "'f \<Rightarrow> 'f \<Rightarrow> float_order"

definition float_gt :: "'f float_arith \<Rightarrow> 'f \<Rightarrow> 'f \<Rightarrow> bool" where
  "float_gt arith x y = (float_compare arith x y = FloatGreater)"

definition float_le :: "'f float_arith \<Rightarrow> 'f \<Rightarrow> 'f \<Rightarrow> bool" where
  "float_le arith x y =
     (float_compare arith x y = FloatLess \<or> float_compare arith x y = FloatEqual)"

record 'f PendingDualMention =
  created_at :: 'f
  trigger_message_id :: int

text \<open>
  A background task is recorded by the coroutine it runs: \<^verbatim>\<open>_run_sequence\<close> with its
  channel, trigger and lines, or \<^verbatim>\<open>_run_miku_sequence\<close> with its message. A task
  created by \<^verbatim>\<open>asyncio.create_task\<close> does not start before the handler that created it
  has returned, since the handler never suspends.
\<close>

datatype task = RunSequence int int "string list" | RunMikuSequence Message

record 'f hook =
  pending_by_channel :: "int \<rightharpoonup> 'f PendingDualMention"
  active_channels :: "int set"
  tasks :: "task list"

definition TETO_FEAR_LINES :: "int \<Rightarrow> string list" where
  "TETO_FEAR_LINES miku_id =
     [''Oh... <@'' @ py_int_str miku_id @ ''>, you are here too?'',
      ''I heard you, Miku. You speak first...'',
      ''Wait, please do not look at me like that...'',
      ''I will behave, I am not messing around...'',
      ''Can I stand a bit farther away...?'',
      ''Okay... I will answer after you...'',
      ''Alright, I will be good. Please do not scold me...'']"

definition MIKU_TEASE_LINES :: "int \<Rightarrow> string list" where
  "MIKU_TEASE_LINES teto_id =
     [''Hey <@'' @ py_int_str teto_id @ ''>, relax. I run this chat now.'',
      ''If there is drama, I will win it in one verse.'',
      ''Teto, keep up. English mode is on.'',
      ''User tagged both of us, so I speak first as usual.'',
      ''No panic. Follow my tempo.'',
      ''Stay sharp, Kasane. I am watching.'',
      ''Alright chat, Miku has the floor.'']"

definition build_teto_fear_lines :: "Settings \<Rightarrow> string list option" where
  "build_teto_fear_lines settings =
     (let target_count = max 1 (teto_fear_message_count settings);
          base_lines = TETO_FEAR_LINES (miku_bot_id settings)
      in expand_lines base_lines target_count)"

definition build_miku_tease_lines :: "Settings \<Rightarrow> string list option" where
  "build_miku_tease_lines settings =
     (let target_count = max 1 (teto_fear_message_count settings);
          base_lines = MIKU_TEASE_LINES (teto_bot_id settings)
      in expand_lines base_lines target_count)"

text \<open>\<^verbatim>\<open>d.pop(key, None)\<close>: the value taken, if any, and the dictionary without the key.\<close>

definition dict_pop :: "('k \<rightharpoonup> 'v) \<Rightarrow> 'k \<Rightarrow> 'v option \<times> ('k \<rightharpoonup> 'v)" where
  "dict_pop d key = (d key, d(key := None))"

definition expired_channels :: "'f float_arith \<Rightarrow> Settings \<Rightarrow> 'f \<Rightarrow> 'f hook \<Rightarrow> int set" where
  "expired_channels arith settings now self =
     {channel_id. case pending_by_channel self channel_id of
                    None \<Rightarrow> False
                  | Some pending \<Rightarrow>
                      float_gt arith (float_sub arith now (created_at pending))
                        (to_float arith (teto_wait_miku_timeout_seconds settings))}"

definition expire_pending :: "'f float_arith \<Rightarrow> Settings \<Rightarrow> 'f \<Rightarrow> 'f hook \<Rightarrow> 'f hook" where
  "expire_pending arith settings now self =
     self\<lparr>pending_by_channel :=
            (\<lambda>channel_id. if channel_id \<in> expired_channels arith settings now self then None
                         else pending_by_channel self channel_id)\<rparr>"

definition handle_teto_bot_message ::
  "Settings \<Rightarrow> 'f hook \<Rightarrow> Message \<Rightarrow> (bool \<times> 'f hook) result"
where
  "handle_teto_bot_message settings self message =
     (if user_id (author message) \<noteq> miku_bot_id settings then Returns (False, self)
      else
        (let (pending, remaining) = dict_pop (pending_by_channel self) (message_channel_id message);
             self = self\<lparr>pending_by_channel := remaining\<rparr>
         in case pending of
              None \<Rightarrow> Returns (False, self)
            | Some pending \<Rightarrow>
                (case build_teto_fear_lines settings of
                   None \<Rightarrow> Diverges
                 | Some lines \<Rightarrow>
                     Returns (False,
                       self\<lparr>tasks := tasks self
                              @ [RunSequence (message_channel_id message)
                                   (trigger_message_id pending) lines]\<rparr>))))"

text \<open>\<open>now\<close> is the reading of \<^verbatim>\<open>time.monotonic()\<close> that stamps a new pending entry.\<close>

definition handle_as_teto ::
  "Settings \<Rightarrow> 'f \<Rightarrow> 'f hook \<Rightarrow> Message \<Rightarrow> (bool \<times> 'f hook) result"
where
  "handle_as_teto settings now self message =
     (if user_bot (author message) then handle_teto_bot_message settings self message
      else if is_dual_mention_trigger settings message
      then Returns (True,
             self\<lparr>pending_by_channel := (pending_by_channel self)
                    (message_channel_id message \<mapsto>
                       \<lparr>created_at = now, trigger_message_id = message_id message\<rparr>)\<rparr>)
      else Returns (False, self))"

definition handle_as_miku ::
  "Settings \<Rightarrow> 'f hook \<Rightarrow> Message \<Rightarrow> (bool \<times> 'f hook) result"
where
  "handle_as_miku settings self message =
     (if user_bot (author message) then Returns (False, self)
      else if \<not> is_dual_mention_trigger settings message then Returns (False, self)
      else (case build_miku_tease_lines settings of
              None \<Rightarrow> Diverges
            | Some lines \<Rightarrow>
                Returns (True,
                  self\<lparr>tasks := tasks self
                         @ [RunSequence (message_channel_id message) (message_id message) lines]\<rparr>)))"

text \<open>
  \<open>bot_user\<close> is \<^verbatim>\<open>self.bot.user\<close>; \<open>sweep_now\<close> and \<open>record_now\<close> are the two
  readings of the monotonic clock in one pass, the first in \<^verbatim>\<open>_expire_pending\<close> and the
  second in \<^verbatim>\<open>_handle_as_teto\<close>.
\<close>

definition handle_message ::
  "'f float_arith \<Rightarrow> Settings \<Rightarrow> User option \<Rightarrow> 'f \<Rightarrow> 'f \<Rightarrow> 'f hook \<Rightarrow> Message
     \<Rightarrow> (bool \<times> 'f hook) result"
where
  "handle_message arith settings bot_user sweep_now record_now self message =
     (if \<not> dual_mention_hook_enabled settings then Returns (False, self)
      else case bot_user of
             None \<Rightarrow> Returns (False, self)
           | Some me \<Rightarrow>
               (let self = expire_pending arith settings sweep_now self
                in if message_channel_id message \<in> active_channels self then Returns (False, self)
                   else if user_id me = teto_bot_id settings
                   then handle_as_teto settings record_now self message
                   else if user_id me = miku_bot_id settings
                   then handle_as_miku settings self message
                   else Returns (False, self)))"


section \<open>The generated-script hook: \<^verbatim>\<open>miku_fear_line_generator.py\<close>\<close>

text \<open>
  The second \<^verbatim>\<open>TetoMikuDualMentionHook\<close> class has no pending table. Its callback
  \<^verbatim>\<open>build_miku_tease_lines\<close> is a constructor argument and may be absent.
\<close>

record generated_hook =
  generated_active_channels :: "int set"
  generated_tasks :: "task list"

definition generated_handle_as_miku ::
  "Settings \<Rightarrow> generated_hook \<Rightarrow> Message \<Rightarrow> bool \<times> generated_hook"
where
  "generated_handle_as_miku settings self message =
     (if user_bot (author message) then (False, self)
      else if \<not> is_dual_mention_trigger settings message then (False, self)
      else (True, self\<lparr>generated_tasks := generated_tasks self @ [RunMikuSequence message]\<rparr>))"

definition generated_handle_message ::
  "Settings \<Rightarrow> User option \<Rightarrow> generated_hook \<Rightarrow> Message \<Rightarrow> bool \<times> generated_hook"
where
  "generated_handle_message settings bot_user self message =
     (if \<not> dual_mention_hook_enabled settings then (False, self)
      else case bot_user of
             None \<Rightarrow> (False, self)
           | Some me \<Rightarrow>
               if user_id me \<noteq> miku_bot_id settings then (False, self)
               else if message_channel_id message \<in> generated_active_channels self
               then (False, self)
               else generated_handle_as_miku settings self message)"

definition generated_build_miku_tease_lines ::
  "Settings \<Rightarrow> (Message \<Rightarrow> int \<Rightarrow> string list result) option \<Rightarrow> Message \<Rightarrow> string list result"
where
  "generated_build_miku_tease_lines settings callback message =
     (let target_count = max 1 (teto_fear_message_count settings)
      in case callback of
           None \<Rightarrow> Returns []
         | Some build \<Rightarrow>
             (case build message target_count of
                Diverges \<Rightarrow> Diverges
              | Raises exc \<Rightarrow> if is_Exception exc then Returns [] else Raises exc
              | Returns dynamic_lines \<Rightarrow>
                  (let normalized = map strip (filter (\<lambda>line. strip line \<noteq> []) dynamic_lines)
                   in if normalized = [] then Returns []
                      else (case expand_lines normalized target_count of
                              None \<Rightarrow> Diverges
                            | Some lines \<Rightarrow> Returns lines))))"

definition run_miku_sequence ::
  "Settings \<Rightarrow> (Message \<Rightarrow> int \<Rightarrow> string list result) option \<Rightarrow> Messageable \<Rightarrow> int set \<Rightarrow> Message
     \<Rightarrow> int set \<times> (string \<times> int set) list \<times> unit result"
where
  "run_miku_sequence settings callback channel active_set message =
     (case generated_build_miku_tease_lines settings callback message of
        Diverges \<Rightarrow> (active_set, [], Diverges)
      | Raises exc \<Rightarrow> (active_set, [], Raises exc)
      | Returns lines \<Rightarrow>
          if lines = [] then (active_set, [], Returns ())
          else run_sequence channel active_set (message_channel_id message)
                 (message_id message) lines)"


section \<open>Example inputs\<close>

text \<open>
  Concrete settings, users, messages and collaborators on which the theorems below are
  evaluated: a generation client that always answers with a fixed reply and passes it
  through unchanged, a decoder that rejects every text (for replies that are plain text),
  a hook in which identity 111 waits on channel 5 since time 0, and a channel whose second
  \<^verbatim>\<open>send\<close> fails. The clock readings and the timeout of the examples (0, 4, 5, 6 and 10)
  are floats on which subtraction and comparison are exact, so \<open>exact_arith\<close> computes on
  them what the machine computes.
\<close>

definition example_settings :: Settings where
  "example_settings =
     \<lparr>dual_mention_hook_enabled = True, teto_bot_id = 111, miku_bot_id = 222,
      teto_fear_message_count = 3, teto_wait_miku_timeout_seconds = 5\<rparr>"

definition example_generator :: "string \<Rightarrow> MikuFearLineGenerator" where
  "example_generator reply =
     \<lparr>client_generate = (\<lambda>prompt. Returns reply), generator_settings = example_settings,
      normalize_model_reply = (\<lambda>reply. reply)\<rparr>"

definition plain_text_lib :: pylib where
  "plain_text_lib = \<lparr>json_loads = (\<lambda>text. None), py_str = (\<lambda>item. [])\<rparr>"

definition teto_user :: User where
  "teto_user = \<lparr>user_id = 111, user_bot = True\<rparr>"

definition miku_user :: User where
  "miku_user = \<lparr>user_id = 222, user_bot = True\<rparr>"

definition human_user :: User where
  "human_user = \<lparr>user_id = 7, user_bot = False\<rparr>"

definition example_message :: "User \<Rightarrow> Message" where
  "example_message sender =
     \<lparr>message_id = 900, message_channel_id = 5, author = sender,
      mentions = [teto_user, miku_user],
      message_content = ''I have an exam tomorrow'',
      message_clean_content = ''I have an exam tomorrow''\<rparr>"

definition exact_arith :: "real float_arith" where
  "exact_arith =
     \<lparr>to_float = (\<lambda>x. x), float_sub = (\<lambda>x y. x - y),
      float_compare = (\<lambda>x y. if x < y then FloatLess else if x = y then FloatEqual
                             else FloatGreater)\<rparr>"

text \<open>
  \<open>rounding_arith\<close> is the arithmetic of IEEE doubles for a subtraction whose result lies
  between 4 and 8, where doubles are the multiples of \<open>2 ^ - 50\<close>: the exact difference
  rounded to the nearest of them, a tie going to the even one. In \<open>rounding_hook\<close> the
  entry of channel 5 was created at the double nearest to 1.69502.
\<close>

definition round_half_even :: "real \<Rightarrow> int" where
  "round_half_even x =
     (if x - of_int \<lfloor>x\<rfloor> < 1 / 2 then \<lfloor>x\<rfloor>
      else if x - of_int \<lfloor>x\<rfloor> > 1 / 2 then \<lfloor>x\<rfloor> + 1
      else if even \<lfloor>x\<rfloor> then \<lfloor>x\<rfloor> else \<lfloor>x\<rfloor> + 1)"

definition rounding_arith :: "real float_arith" where
  "rounding_arith =
     \<lparr>to_float = (\<lambda>x. x),
      float_sub = (\<lambda>x y. of_int (round_half_even ((x - y) * 2 ^ 50)) / 2 ^ 50),
      float_compare = (\<lambda>x y. if x < y then FloatLess else if x = y then FloatEqual
                             else FloatGreater)\<rparr>"

definition rounding_hook :: "real hook" where
  "rounding_hook =
     \<lparr>pending_by_channel =
        [5 \<mapsto> \<lparr>created_at = 3816845720192769 / 2 ^ 51, trigger_message_id = 900\<rparr>],
      active_channels = {}, tasks = []\<rparr>"

definition waiting_hook :: "int set \<Rightarrow> real hook" where
  "waiting_hook active =
     \<lparr>pending_by_channel = [5 \<mapsto> \<lparr>created_at = 0, trigger_message_id = 900\<rparr>],
      active_channels = active, tasks = []\<rparr>"

definition failing_channel :: Messageable where
  "failing_channel =
     \<lparr>typing_sleep = (\<lambda>index delay_seconds. Returns ()),
      send = (\<lambda>index line. if index = 1 then Raises (Exception ''send failed'') else Returns ())\<rparr>"


section \<open>Evaluation rules\<close>

lemmas string_eval = strip_def is_space_def whitespace_def startswith_def splitlines_def
  strip_line_prefix_def is_digit_def mention_token_def py_int_str_def nat_digits.simps
  lower_def lower_char_def

lemmas expand_eval = expand_lines_def extend_loop.simps py_slice_to_def

lemmas fixture_eval = example_settings_def example_generator_def plain_text_lib_def teto_user_def
  miku_user_def human_user_def example_message_def waiting_hook_def failing_channel_def
  exact_arith_def float_gt_def float_le_def


section \<open>Substrings and joined lines\<close>

lemma str_in_iff: "str_in needle hay \<longleftrightarrow> (\<exists>before after. hay = before @ needle @ after)"
proof (induction hay)
  case Nil
  then show ?case by auto
next
  case (Cons c cs)
  show ?case
  proof
    assume "str_in needle (c # cs)"
    then consider "take (length needle) (c # cs) = needle" | "str_in needle cs" by auto
    then show "\<exists>before after. c # cs = before @ needle @ after"
    proof cases
      case 1
      then have "c # cs = [] @ needle @ drop (length needle) (c # cs)"
        by (metis append_Nil append_take_drop_id)
      then show ?thesis by blast
    next
      case 2
      with Cons.IH obtain before after where "cs = before @ needle @ after" by blast
      then have "c # cs = (c # before) @ needle @ after" by simp
      then show ?thesis by blast
    qed
  next
    assume "\<exists>before after. c # cs = before @ needle @ after"
    then obtain before after where eq: "c # cs = before @ needle @ after" by blast
    show "str_in needle (c # cs)"
    proof (cases before)
      case Nil
      with eq have "take (length needle) (c # cs) = needle" by simp
      then show ?thesis by simp
    next
      case (Cons b bs)
      with eq have "cs = bs @ needle @ after" by simp
      with Cons.IH have "str_in needle cs" by blast
      then show ?thesis by simp
    qed
  qed
qed

lemma infix_of_separated:
  assumes "sep \<notin> set needle"
    and eq: "before @ needle @ after = x @ sep # rest"
  shows "(\<exists>b a. x = b @ needle @ a) \<or> (\<exists>b a. rest = b @ needle @ a)"
proof -
  consider "length before + length needle \<le> length x" | "length x < length before"
    | "length before \<le> length x" "length x < length before + length needle"
    by linarith
  then show ?thesis
  proof cases
    case 1
    from eq have "take (length x) (before @ needle @ after) = x" by simp
    with 1 have "x = before @ needle @ take (length x - length before - length needle) after"
      by simp
    then show ?thesis by blast
  next
    case 2
    from eq have "drop (Suc (length x)) (before @ needle @ after) = rest" by simp
    with 2 have "rest = drop (Suc (length x)) before @ needle @ after" by simp
    then show ?thesis by blast
  next
    case 3
    from eq have "(before @ needle @ after) ! length x = sep" by simp
    moreover from 3 have lt: "length x - length before < length needle" by linarith
    ultimately have "needle ! (length x - length before) = sep"
      using 3(1) by (simp add: nth_append)
    with lt have "sep \<in> set needle" using nth_mem by blast
    with assms(1) show ?thesis by contradiction
  qed
qed

lemma str_in_join:
  assumes "sep \<notin> set needle"
  shows "str_in needle (join [sep] lines) \<longleftrightarrow> (lines = [] \<and> needle = []) \<or> (\<exists>line \<in> set lines. str_in needle line)"
proof (induction "[sep]" lines rule: join.induct)
  case 1
  then show ?case by simp
next
  case (2 x)
  then show ?case by simp
next
  case (3 x y ys)
  have "str_in needle (x @ [sep] @ join [sep] (y # ys))
          \<longleftrightarrow> str_in needle x \<or> str_in needle (join [sep] (y # ys))"
  proof
    assume "str_in needle (x @ [sep] @ join [sep] (y # ys))"
    then obtain before after where "before @ needle @ after = x @ sep # join [sep] (y # ys)"
      unfolding str_in_iff by (metis append_Cons append_Nil)
    from infix_of_separated[OF assms this] show "str_in needle x \<or> str_in needle (join [sep] (y # ys))"
      unfolding str_in_iff by blast
  next
    assume "str_in needle x \<or> str_in needle (join [sep] (y # ys))"
    then show "str_in needle (x @ [sep] @ join [sep] (y # ys))"
    proof
      assume "str_in needle x"
      then obtain b a where "x = b @ needle @ a" unfolding str_in_iff by blast
      then have "x @ [sep] @ join [sep] (y # ys) = b @ needle @ (a @ [sep] @ join [sep] (y # ys))"
        by simp
      then show ?thesis unfolding str_in_iff by blast
    next
      assume "str_in needle (join [sep] (y # ys))"
      then obtain b a where "join [sep] (y # ys) = b @ needle @ a" unfolding str_in_iff by blast
      then have "x @ [sep] @ join [sep] (y # ys) = (x @ [sep] @ b) @ needle @ a"
        by simp
      then show ?thesis unfolding str_in_iff by blast
    qed
  qed
  with 3 show ?case by auto
qed

lemma join_prepend:
  "lines \<noteq> [] \<Longrightarrow> join sep (lines[0 := prefix @ sep @ lines ! 0]) = prefix @ sep @ join sep lines"
proof (cases lines)
  case Nil
  then show "lines \<noteq> [] \<Longrightarrow> ?thesis" by simp
next
  case (Cons h t)
  then show ?thesis by (cases t) simp_all
qed

lemma nat_digits_chars: "set (nat_digits n) \<subseteq> set ''0123456789''"
proof (induction n rule: nat_digits.induct)
  case (1 n)
  have digit: "''0123456789'' ! d \<in> set ''0123456789''" if "d < 10" for d
    using that by (intro nth_mem) simp
  show ?case
  proof (cases "n < 10")
    case True
    then show ?thesis using digit[of n] by (subst nat_digits.simps) simp
  next
    case False
    have "n mod 10 < 10" by simp
    with 1 False digit[of "n mod 10"] show ?thesis by (subst nat_digits.simps) simp
  qed
qed

lemma mention_token_no_space: "CHR '' '' \<notin> set (mention_token required_mention_id)"
  using nat_digits_chars[of "nat required_mention_id"] nat_digits_chars[of "nat (- required_mention_id)"]
  by (auto simp: mention_token_def py_int_str_def)

lemma mention_token_nonempty: "mention_token required_mention_id \<noteq> []"
  by (simp add: mention_token_def)

lemma lower_char_idem: "lower_char (lower_char c) = lower_char c"
  by (cases c) (auto simp: lower_char_def)

lemma str_in_lower:
  assumes "str_in word (lower hay)"
  shows "str_in (lower word) (lower hay)"
proof -
  from assms obtain before after where "map lower_char hay = before @ word @ after"
    unfolding str_in_iff lower_def by blast
  then obtain w where "word = map lower_char w"
    by (metis map_eq_append_conv)
  then have "lower word = word" by (simp add: lower_def lower_char_idem)
  with assms show ?thesis by simp
qed


section \<open>Properties of line expansion\<close>

lemma extend_loop_empty_diverges:
  assumes "extend_loop base_lines extended target_count = Some out"
  shows "base_lines = [] \<longrightarrow> target_count \<le> int (length extended)"
proof (rule extend_loop.raw_induct[where P = "\<lambda>b e t out. b = [] \<longrightarrow> t \<le> int (length e)"])
  show "extend_loop base_lines extended target_count = Some out" by (rule assms)
next
  fix loop :: "'a list \<Rightarrow> 'a list \<Rightarrow> int \<Rightarrow> 'a list option" and b e t r
  assume IH: "\<And>b' e' t' y. loop b' e' t' = Some y \<Longrightarrow> b' = [] \<longrightarrow> t' \<le> int (length e')"
    and step: "(if int (length e) < t then loop b (e @ b) t else Some e) = Some r"
  show "b = [] \<longrightarrow> t \<le> int (length e)"
  proof
    assume "b = []"
    show "t \<le> int (length e)"
    proof (rule ccontr)
      assume "\<not> t \<le> int (length e)"
      with step have "loop b (e @ b) t = Some r" by simp
      from IH[OF this] \<open>b = []\<close> \<open>\<not> t \<le> int (length e)\<close> show False by simp
    qed
  qed
qed

lemma extend_loop_returns:
  assumes "base_lines \<noteq> []"
  shows "\<exists>k. extend_loop base_lines extended t = Some (extended @ concat (replicate k base_lines))
             \<and> t \<le> int (length (extended @ concat (replicate k base_lines)))"
proof (induction "nat (t - int (length extended))" arbitrary: extended rule: less_induct)
  case less
  show ?case
  proof (cases "int (length extended) < t")
    case False
    then have "extend_loop base_lines extended t = Some (extended @ concat (replicate 0 base_lines))"
      by (subst extend_loop.simps) simp
    with False show ?thesis by (intro exI[of _ 0]) simp
  next
    case True
    from assms have "0 < length base_lines" by simp
    with True have "nat (t - int (length (extended @ base_lines))) < nat (t - int (length extended))"
      by simp
    from less[OF this] obtain k where
      k: "extend_loop base_lines (extended @ base_lines) t
            = Some ((extended @ base_lines) @ concat (replicate k base_lines))"
         "t \<le> int (length ((extended @ base_lines) @ concat (replicate k base_lines)))"
      by blast
    from True k(1) have "extend_loop base_lines extended t
                           = Some (extended @ concat (replicate (Suc k) base_lines))"
      by (subst extend_loop.simps) simp
    with k(2) show ?thesis by (intro exI[of _ "Suc k"]) simp
  qed
qed

lemma nth_concat_replicate:
  "i < n * length xs \<Longrightarrow> concat (replicate n xs) ! i = xs ! (i mod length xs)"
proof (induction n arbitrary: i)
  case 0
  then show ?case by simp
next
  case (Suc n)
  show ?case
  proof (cases "i < length xs")
    case True
    then show ?thesis by (simp add: nth_append)
  next
    case False
    with Suc.prems have "i - length xs < n * length xs" by simp
    from Suc.IH[OF this] False show ?thesis
      by (simp add: nth_append le_mod_geq)
  qed
qed

lemma expand_lines_same_length:
  "int (length out) = target_count \<Longrightarrow> expand_lines out target_count = Some out"
  by (auto simp: expand_lines_def py_slice_to_def)

lemma expand_lines_nonempty:
  assumes "base_lines \<noteq> []"
  shows "\<exists>out. expand_lines base_lines target_count = Some out
           \<and> (1 \<le> target_count \<longrightarrow> out \<noteq> []) \<and> (out \<noteq> [] \<longrightarrow> hd out = hd base_lines)"
proof (cases "target_count \<le> int (length base_lines)")
  case True
  then have "expand_lines base_lines target_count = Some (py_slice_to base_lines target_count)"
    by (simp add: expand_lines_def)
  moreover have "1 \<le> target_count \<longrightarrow> py_slice_to base_lines target_count \<noteq> []"
    using assms by (auto simp: py_slice_to_def)
  moreover have "py_slice_to base_lines target_count \<noteq> []
                   \<longrightarrow> hd (py_slice_to base_lines target_count) = hd base_lines"
    by (auto simp: py_slice_to_def hd_take)
  ultimately show ?thesis by blast
next
  case False
  from extend_loop_returns[OF assms, of base_lines target_count] obtain k where
    k: "extend_loop base_lines base_lines target_count
          = Some (base_lines @ concat (replicate k base_lines))"
    by blast
  define out where "out = py_slice_to (base_lines @ concat (replicate k base_lines)) target_count"
  from False k have "expand_lines base_lines target_count = Some out"
    by (simp add: expand_lines_def out_def)
  moreover from False assms have "out \<noteq> []" "hd out = hd base_lines"
    by (auto simp: out_def py_slice_to_def hd_take)
  ultimately show ?thesis by blast
qed

text \<open>
  Claim C1, as amended. For a target count \<open>target_count \<ge> 0\<close> and a base list that is
  non-empty (or any base list when the target is 0), \<^verbatim>\<open>_expand_lines\<close> returns exactly
  \<open>target_count\<close> lines: the first \<open>target_count\<close> lines when the target is at most the
  length of the base list, otherwise the base list repeated end to end and cut to
  \<open>target_count\<close>. Line \<open>i\<close> of the output is line \<open>i mod length base_lines\<close> of the
  base list, so the order is kept, and expanding the output again with the same target
  returns it unchanged.
\<close>

theorem expand_lines_exact:
  assumes "0 \<le> target_count" and "base_lines \<noteq> [] \<or> target_count = 0"
  shows "\<exists>out. expand_lines base_lines target_count = Some out
           \<and> int (length out) = target_count
           \<and> (target_count \<le> int (length base_lines) \<longrightarrow> out = take (nat target_count) base_lines)
           \<and> (int (length base_lines) < target_count \<longrightarrow>
                (\<exists>k. out = take (nat target_count) (concat (replicate k base_lines))))
           \<and> (\<forall>i < length out. out ! i = base_lines ! (i mod length base_lines))
           \<and> expand_lines out target_count = Some out"
proof (cases "target_count \<le> int (length base_lines)")
  case True
  define out where "out = take (nat target_count) base_lines"
  from True assms(1) have len: "int (length out) = target_count" by (simp add: out_def)
  have "expand_lines base_lines target_count = Some out"
    using True assms(1) by (simp add: expand_lines_def py_slice_to_def out_def)
  moreover have "expand_lines out target_count = Some out"
    using len by (rule expand_lines_same_length)
  moreover have "\<forall>i < length out. out ! i = base_lines ! (i mod length base_lines)"
    by (simp add: out_def)
  ultimately show ?thesis using True len out_def by auto
next
  case False
  with assms(2) have ne: "base_lines \<noteq> []" by auto
  from extend_loop_returns[OF ne, of base_lines target_count] obtain k where
    k: "extend_loop base_lines base_lines target_count
          = Some (base_lines @ concat (replicate k base_lines))"
       "target_count \<le> int (length (base_lines @ concat (replicate k base_lines)))"
    by blast
  define rep where "rep = concat (replicate (Suc k) base_lines)"
  define out where "out = take (nat target_count) rep"
  have rep_eq: "base_lines @ concat (replicate k base_lines) = rep" by (simp add: rep_def)
  have rep_len: "length rep = Suc k * length base_lines"
    by (simp add: rep_def length_concat sum_list_replicate)
  from k(2) have long: "nat target_count \<le> length rep" unfolding rep_eq by simp
  then have len: "int (length out) = target_count" using assms(1) by (simp add: out_def)
  have res: "expand_lines base_lines target_count = Some out"
    using False k(1) assms(1) unfolding rep_eq
    by (simp add: expand_lines_def py_slice_to_def out_def)
  have idem: "expand_lines out target_count = Some out"
    using len by (rule expand_lines_same_length)
  have cyc: "\<forall>i < length out. out ! i = base_lines ! (i mod length base_lines)"
  proof (intro allI impI)
    fix i assume "i < length out"
    then have i: "i < nat target_count" "i < length rep" by (simp_all add: out_def)
    then have "i < Suc k * length base_lines" by (simp only: rep_len)
    then have "rep ! i = base_lines ! (i mod length base_lines)"
      unfolding rep_def by (rule nth_concat_replicate)
    with i(1) show "out ! i = base_lines ! (i mod length base_lines)" by (simp add: out_def)
  qed
  have "\<exists>k. out = take (nat target_count) (concat (replicate k base_lines))"
    unfolding out_def rep_def by blast
  with res len idem cyc False show ?thesis by blast
qed

text \<open>
  The theorem at the base list a, b, c: target 7 wraps around, the result is a fixed point,
  and target 2 takes a prefix.
\<close>

theorem expand_lines_exact_witness:
  "expand_lines [''a'', ''b'', ''c''] 7 = Some [''a'', ''b'', ''c'', ''a'', ''b'', ''c'', ''a'']
   \<and> expand_lines [''a'', ''b'', ''c'', ''a'', ''b'', ''c'', ''a''] 7
       = Some [''a'', ''b'', ''c'', ''a'', ''b'', ''c'', ''a'']
   \<and> expand_lines [''a'', ''b'', ''c''] 2 = Some [''a'', ''b'']"
proof -
  have long: "expand_lines [''a'', ''b'', ''c''] 7
                = Some [''a'', ''b'', ''c'', ''a'', ''b'', ''c'', ''a'']"
    by (simp add: expand_eval)
  from expand_lines_exact[of 7 "[''a'', ''b'', ''c'']"] long
  have "expand_lines [''a'', ''b'', ''c'', ''a'', ''b'', ''c'', ''a''] 7
          = Some [''a'', ''b'', ''c'', ''a'', ''b'', ''c'', ''a'']"
    by auto
  moreover from expand_lines_exact[of 2 "[''a'', ''b'', ''c'']"]
  have "expand_lines [''a'', ''b'', ''c''] 2 = Some [''a'', ''b'']"
    by (auto simp: numeral_2_eq_2)
  ultimately show ?thesis using long by blast
qed

text \<open>
  Claim C1 as stated fails on two inputs. On an empty base list with target 1 the loop
  appends nothing for ever and no result is returned; with target \<open>-1\<close> the slice
  \<^verbatim>\<open>lines[:-1]\<close> of a one-line list is empty, which is not \<open>-1\<close> lines.
\<close>

theorem expand_lines_counterexample:
  "expand_lines ([] :: string list) 1 = None \<and> expand_lines [''a''] (- 1) = Some []"
proof -
  have "extend_loop ([] :: string list) [] 1 = None"
    using extend_loop_empty_diverges[of "[] :: string list" "[]" 1]
    by (cases "extend_loop ([] :: string list) [] 1") auto
  then show ?thesis by (simp add: expand_lines_def py_slice_to_def)
qed

text \<open>
  Claim C9. For a non-empty base list and any target count the loop of
  \<^verbatim>\<open>_expand_lines\<close> grows the list strictly on each iteration and exits, and
  \<^verbatim>\<open>_expand_lines\<close> returns a result.
\<close>

theorem expand_lines_terminates:
  assumes "base_lines \<noteq> []"
  shows "(\<forall>extended. length extended < length (extended @ base_lines))
       \<and> (\<exists>extended. extend_loop base_lines base_lines target_count = Some extended)
       \<and> (\<exists>out. expand_lines base_lines target_count = Some out)"
proof -
  from extend_loop_returns[OF assms, of base_lines target_count]
  obtain extended where "extend_loop base_lines base_lines target_count = Some extended" by blast
  then show ?thesis using assms by (auto simp: expand_lines_def)
qed

theorem expand_lines_terminates_witness:
  "expand_lines [''a'', ''b''] 5 = Some [''a'', ''b'', ''a'', ''b'', ''a'']
   \<and> extend_loop [''a'', ''b''] [''a'', ''b''] 5 = Some [''a'', ''b'', ''a'', ''b'', ''a'', ''b'']"
  using expand_lines_terminates[of "[''a'', ''b'']" 5]
  by (simp add: expand_eval)


section \<open>Properties of the generated-script strategy\<close>

lemma error_conditions_distinct:
  "empty_output \<noteq> unparseable_output" "empty_output \<noteq> ignored_material"
  "unparseable_output \<noteq> ignored_material"
  by (simp_all add: empty_output_def unparseable_output_def ignored_material_def)

lemma parse_lines_empty:
  "strip (normalize_model_reply self raw_output) = []
     \<Longrightarrow> parse_lines self lib raw_output line_count required_mention_id material_words
           = Raises empty_output"
  by (simp add: parse_lines_def)

lemma parse_lines_unparseable:
  "strip (normalize_model_reply self raw_output) \<noteq> []
     \<Longrightarrow> extract_lines_from_text lib (strip (normalize_model_reply self raw_output)) = []
     \<Longrightarrow> parse_lines self lib raw_output line_count required_mention_id material_words
           = Raises unparseable_output"
  by (simp add: parse_lines_def)

lemma parse_lines_parsed:
  assumes "strip (normalize_model_reply self raw_output) \<noteq> []"
    and "extract_lines_from_text lib (strip (normalize_model_reply self raw_output)) = parsed"
    and "parsed \<noteq> []"
    and "lines = (if \<not> str_in (mention_token required_mention_id) (join '' '' parsed)
                  then parsed[0 := mention_token required_mention_id @ '' '' @ parsed ! 0]
                  else parsed)"
  shows "parse_lines self lib raw_output line_count required_mention_id material_words
           = (if material_words \<noteq> [] \<and> \<not> has_material_overlap lines material_words
              then Raises ignored_material
              else (case expand_lines lines line_count of
                      None \<Rightarrow> Diverges
                    | Some expanded \<Rightarrow> Returns expanded))"
  using assms by (simp add: parse_lines_def Let_def)

lemma parse_lines_raises:
  assumes "parse_lines self lib raw_output line_count required_mention_id material_words = Raises exc"
  shows "exc \<in> {empty_output, unparseable_output, ignored_material}"
  using assms by (auto simp: parse_lines_def Let_def split: if_splits option.splits)

lemma validation_failures_are_Exceptions:
  "is_Exception empty_output" "is_Exception unparseable_output" "is_Exception ignored_material"
  by (simp_all add: empty_output_def unparseable_output_def ignored_material_def)

text \<open>
  Claim C2, as amended. \<^verbatim>\<open>_parse_lines\<close> fails with "empty output" exactly when the
  normalized and stripped text body is empty, and with "unparseable output" exactly when
  that body is not empty and no line survives parsing. (The claim as stated has the two
  conditions the other way round.)
\<close>

theorem parse_lines_failure_conditions:
  "(parse_lines self lib raw_output line_count required_mention_id material_words
      = Raises empty_output
    \<longleftrightarrow> strip (normalize_model_reply self raw_output) = [])
   \<and> (parse_lines self lib raw_output line_count required_mention_id material_words
         = Raises unparseable_output
       \<longleftrightarrow> strip (normalize_model_reply self raw_output) \<noteq> []
           \<and> extract_lines_from_text lib (strip (normalize_model_reply self raw_output)) = [])"
proof (cases "strip (normalize_model_reply self raw_output) = []")
  case True
  with parse_lines_empty[OF True] error_conditions_distinct show ?thesis by simp
next
  case body: False
  show ?thesis
  proof (cases "extract_lines_from_text lib (strip (normalize_model_reply self raw_output)) = []")
    case True
    with body parse_lines_unparseable[OF body True] error_conditions_distinct show ?thesis by simp
  next
    case False
    from parse_lines_parsed[OF body refl False refl]
    have "parse_lines self lib raw_output line_count required_mention_id material_words
            \<noteq> Raises empty_output"
      and "parse_lines self lib raw_output line_count required_mention_id material_words
            \<noteq> Raises unparseable_output"
      using error_conditions_distinct by (auto split: option.splits)
    with body False show ?thesis by simp
  qed
qed

text \<open>
  The theorem at a reply of two blanks and at a reply that is a lone bullet.
\<close>

theorem parse_lines_failure_conditions_witness:
  "parse_lines (example_generator []) plain_text_lib ''  '' 3 123 [] = Raises empty_output
   \<and> parse_lines (example_generator []) plain_text_lib ''- '' 3 123 [] = Raises unparseable_output"
  using parse_lines_failure_conditions[where self = "example_generator []" and lib = plain_text_lib
          and raw_output = "''  ''" and line_count = 3 and required_mention_id = 123
          and material_words = "[]"]
    parse_lines_failure_conditions[where self = "example_generator []" and lib = plain_text_lib
          and raw_output = "''- ''" and line_count = 3 and required_mention_id = 123
          and material_words = "[]"]
  by (simp add: extract_lines_from_text_def string_eval fixture_eval)

text \<open>
  Claim C2 as stated fails on the reply \<^verbatim>\<open>-\<close>: no line survives parsing, yet the
  failure is not "empty output"; and the failure is "unparseable output" although the
  normalized body is not empty.
\<close>

theorem parse_lines_failure_conditions_counterexample:
  "extract_lines_from_text plain_text_lib (strip (normalize_model_reply (example_generator []) ''-'')) = []
   \<and> strip (normalize_model_reply (example_generator []) ''-'') \<noteq> []
   \<and> parse_lines (example_generator []) plain_text_lib ''-'' 3 123 [] = Raises unparseable_output
   \<and> unparseable_output \<noteq> empty_output"
  by (simp add: parse_lines_def extract_lines_from_text_def string_eval fixture_eval
        unparseable_output_def empty_output_def)

text \<open>
  Claim C7, as amended. Let \<open>parsed\<close> be the non-empty list of lines parsed from the reply.
  \<^verbatim>\<open>_parse_lines\<close> always completes. If no parsed line contains the mention token, every
  script it returns for a requested count of at least 1 is non-empty, and the first line
  of every non-empty script it returns is the token, a blank and the first parsed line, so
  it contains the mention. If the material-word list is not empty and none of its first
  five words occurs, compared in lower case, in the lines joined by blanks (after the token
  was prepended where it was missing), the call fails with "ignored material"; if the list
  is empty or one of the five words occurs there as it is, the call returns a script.
\<close>

theorem parse_lines_mention_and_material:
  fixes self lib raw_output line_count required_mention_id material_words parsed
  defines "token \<equiv> mention_token required_mention_id"
    and "result \<equiv> parse_lines self lib raw_output line_count required_mention_id material_words"
  defines "haystack \<equiv> (if \<exists>line \<in> set parsed. str_in token line then join '' '' parsed
                         else token @ '' '' @ join '' '' parsed)"
  assumes body: "strip (normalize_model_reply self raw_output) \<noteq> []"
    and parsed_def:
      "extract_lines_from_text lib (strip (normalize_model_reply self raw_output)) = parsed"
    and parsed: "parsed \<noteq> []"
  shows "result \<noteq> Diverges
    \<and> ((\<forall>line \<in> set parsed. \<not> str_in token line) \<longrightarrow>
         (\<forall>script. result = Returns script \<longrightarrow>
            (1 \<le> line_count \<longrightarrow> script \<noteq> [])
            \<and> (script \<noteq> [] \<longrightarrow> hd script = token @ '' '' @ hd parsed \<and> str_in token (hd script))))
    \<and> (material_words \<noteq> [] \<and> (\<forall>word \<in> set (take 5 material_words). \<not> str_in (lower word) (lower haystack))
         \<longrightarrow> result = Raises ignored_material)
    \<and> (material_words = [] \<or> (\<exists>word \<in> set (take 5 material_words). str_in word (lower haystack))
         \<longrightarrow> (\<exists>script. result = Returns script))"
proof -
  define lines where "lines = (if \<not> str_in token (join '' '' parsed)
                                then parsed[0 := token @ '' '' @ parsed ! 0] else parsed)"
  have in_join: "str_in token (join '' '' parsed) \<longleftrightarrow> (\<exists>line \<in> set parsed. str_in token line)"
    using str_in_join[of "CHR '' ''" token parsed] mention_token_no_space mention_token_nonempty
    by (simp add: token_def)
  have lines_ne: "lines \<noteq> []" using parsed by (simp add: lines_def)
  have joined: "join '' '' lines = haystack"
    using parsed join_prepend[of parsed "'' ''" token] by (simp add: lines_def haystack_def in_join)
  have overlap: "has_material_overlap lines material_words
                   \<longleftrightarrow> (\<exists>word \<in> set (take 5 material_words). str_in word (lower haystack))"
    by (simp add: has_material_overlap_def joined list_ex_iff)
  have result: "result = (if material_words \<noteq> [] \<and> \<not> has_material_overlap lines material_words
                          then Raises ignored_material
                          else (case expand_lines lines line_count of
                                  None \<Rightarrow> Diverges | Some expanded \<Rightarrow> Returns expanded))"
    unfolding result_def
    by (rule parse_lines_parsed[OF body parsed_def parsed lines_def[unfolded token_def]])
  from expand_lines_nonempty[OF lines_ne, of line_count] obtain out where
    out: "expand_lines lines line_count = Some out" "1 \<le> line_count \<longrightarrow> out \<noteq> []"
         "out \<noteq> [] \<longrightarrow> hd out = hd lines"
    by blast
  have total: "result \<noteq> Diverges" using result out(1) by simp
  have mention: "(\<forall>script. result = Returns script \<longrightarrow>
            (1 \<le> line_count \<longrightarrow> script \<noteq> [])
            \<and> (script \<noteq> [] \<longrightarrow> hd script = token @ '' '' @ hd parsed \<and> str_in token (hd script)))"
    if none: "\<forall>line \<in> set parsed. \<not> str_in token line"
  proof (intro allI impI)
    fix script assume "result = Returns script"
    with result out(1) have script: "script = out" by (simp split: if_splits)
    from none in_join parsed have "hd lines = token @ '' '' @ hd parsed"
      by (cases parsed) (simp_all add: lines_def)
    moreover have "str_in token (token @ '' '' @ hd parsed)"
      unfolding str_in_iff by (metis append_Nil)
    ultimately show "(1 \<le> line_count \<longrightarrow> script \<noteq> [])
            \<and> (script \<noteq> [] \<longrightarrow> hd script = token @ '' '' @ hd parsed \<and> str_in token (hd script))"
      using out(2,3) script by simp
  qed
  have material: "result = Raises ignored_material"
    if "material_words \<noteq> []"
      and "\<forall>word \<in> set (take 5 material_words). \<not> str_in (lower word) (lower haystack)"
  proof -
    from that(2) have "\<not> has_material_overlap lines material_words"
      unfolding overlap using str_in_lower by blast
    with that(1) result show ?thesis by simp
  qed
  have returns: "\<exists>script. result = Returns script"
    if "material_words = [] \<or> (\<exists>word \<in> set (take 5 material_words). str_in word (lower haystack))"
    using that result out(1) overlap by auto
  from total mention material returns show ?thesis by blast
qed

text \<open>
  The theorem at the reply "Hey there" with mention id 123 and two requested lines: with no
  material words the script is returned with the mention in its first line, and with the
  material words "exam" and "tomorrow" the call fails.
\<close>

theorem parse_lines_mention_and_material_witness:
  "parse_lines (example_generator []) plain_text_lib ''Hey there'' 2 123 []
     = Returns [''<@123> Hey there'', ''<@123> Hey there'']
   \<and> str_in (mention_token 123) (hd [''<@123> Hey there'', ''<@123> Hey there''])
   \<and> parse_lines (example_generator []) plain_text_lib ''Hey there'' 2 123 [''exam'', ''tomorrow'']
     = Raises ignored_material"
proof -
  have body: "strip (normalize_model_reply (example_generator []) ''Hey there'') \<noteq> []"
    by (simp add: string_eval fixture_eval)
  have parsed: "extract_lines_from_text plain_text_lib
                  (strip (normalize_model_reply (example_generator []) ''Hey there''))
                = [''Hey there'']"
    by (simp add: extract_lines_from_text_def string_eval fixture_eval)
  have none: "\<forall>line \<in> set [''Hey there'']. \<not> str_in (mention_token 123) line"
    by (simp add: string_eval)
  have returned: "parse_lines (example_generator []) plain_text_lib ''Hey there'' 2 123 []
                    = Returns [''<@123> Hey there'', ''<@123> Hey there'']"
    by (simp add: parse_lines_parsed[OF body parsed _ refl] string_eval expand_eval)
  have absent: "\<forall>word \<in> set (take 5 [''exam'', ''tomorrow'']).
                  \<not> str_in (lower word) (lower (mention_token 123 @ '' '' @ join '' '' [''Hey there'']))"
    by (simp add: string_eval)
  note mention = parse_lines_mention_and_material[OF body parsed, where line_count = 2
      and required_mention_id = 123 and material_words = "[]"]
  note material = parse_lines_mention_and_material[OF body parsed, where line_count = 2
      and required_mention_id = 123 and material_words = "[''exam'', ''tomorrow'']"]
  from mention none returned
  have "str_in (mention_token 123) (hd [''<@123> Hey there'', ''<@123> Hey there''])"
    by blast
  moreover from material none absent
  have "parse_lines (example_generator []) plain_text_lib ''Hey there'' 2 123 [''exam'', ''tomorrow'']
          = Raises ignored_material"
    by auto
  ultimately show ?thesis using returned by blast
qed

text \<open>
  Claim C7 as stated fails for a requested count of 0: the one parsed line has no mention,
  and the returned script is empty, so it has no first line that contains the mention.
\<close>

theorem parse_lines_mention_counterexample:
  "extract_lines_from_text plain_text_lib (strip (normalize_model_reply (example_generator []) ''Hey there''))
     = [''Hey there'']
   \<and> \<not> str_in (mention_token 123) ''Hey there''
   \<and> parse_lines (example_generator []) plain_text_lib ''Hey there'' 0 123 [] = Returns []"
  by (simp add: parse_lines_def extract_lines_from_text_def string_eval fixture_eval expand_eval)


section \<open>Properties of the hooks\<close>

text \<open>
  Claim C4. \<^verbatim>\<open>_is_dual_mention_trigger\<close> holds exactly when some mentioned member has
  the Teto identity and some mentioned member has the Miku identity. It is a function of
  the settings and the message alone: it reads no state and has no effect.
\<close>

theorem is_dual_mention_trigger_iff:
  "is_dual_mention_trigger settings message
     \<longleftrightarrow> (\<exists>member \<in> set (mentions message). user_id member = teto_bot_id settings)
         \<and> (\<exists>member \<in> set (mentions message). user_id member = miku_bot_id settings)"
  by (simp add: is_dual_mention_trigger_def image_iff) metis

theorem is_dual_mention_trigger_iff_witness:
  "is_dual_mention_trigger example_settings (example_message human_user)
   \<and> \<not> is_dual_mention_trigger example_settings ((example_message human_user)\<lparr>mentions := [teto_user]\<rparr>)"
  using is_dual_mention_trigger_iff[of example_settings "example_message human_user"]
    is_dual_mention_trigger_iff[of example_settings
      "(example_message human_user)\<lparr>mentions := [teto_user]\<rparr>"]
  by (simp add: fixture_eval)

lemma expire_pending_lookup:
  "pending_by_channel (expire_pending arith settings now self) channel_id
     = (case pending_by_channel self channel_id of
          None \<Rightarrow> None
        | Some pending \<Rightarrow>
            if float_gt arith (float_sub arith now (created_at pending))
                 (to_float arith (teto_wait_miku_timeout_seconds settings))
            then None
            else Some pending)"
  by (simp add: expire_pending_def expired_channels_def split: option.splits)

lemma expire_pending_other_fields:
  "active_channels (expire_pending arith settings now self) = active_channels self"
  "tasks (expire_pending arith settings now self) = tasks self"
  by (simp_all add: expire_pending_def)

lemma build_teto_fear_lines_returns: "\<exists>lines. build_teto_fear_lines settings = Some lines \<and> lines \<noteq> []"
proof -
  have "TETO_FEAR_LINES (miku_bot_id settings) \<noteq> []" by (simp add: TETO_FEAR_LINES_def)
  from expand_lines_nonempty[OF this, of "max 1 (teto_fear_message_count settings)"]
  show ?thesis by (auto simp: build_teto_fear_lines_def)
qed

lemma build_miku_tease_lines_returns: "\<exists>lines. build_miku_tease_lines settings = Some lines \<and> lines \<noteq> []"
proof -
  have "MIKU_TEASE_LINES (teto_bot_id settings) \<noteq> []" by (simp add: MIKU_TEASE_LINES_def)
  from expand_lines_nonempty[OF this, of "max 1 (teto_fear_message_count settings)"]
  show ?thesis by (auto simp: build_miku_tease_lines_def)
qed

lemma handle_message_returns:
  "\<exists>handled self'. handle_message arith settings bot_user sweep_now record_now self message
                       = Returns (handled, self')"
proof -
  from build_teto_fear_lines_returns obtain teto_lines where
    "build_teto_fear_lines settings = Some teto_lines" by blast
  moreover from build_miku_tease_lines_returns obtain miku_lines where
    "build_miku_tease_lines settings = Some miku_lines" by blast
  ultimately show ?thesis
    by (auto simp: handle_message_def handle_as_teto_def handle_as_miku_def
          handle_teto_bot_message_def dict_pop_def Let_def split: option.splits)
qed

lemma handle_teto_bot_message_absent:
  assumes "user_id (author message) = miku_bot_id settings"
    and "pending_by_channel self (message_channel_id message) = None"
  shows "handle_teto_bot_message settings self message = Returns (False, self)"
proof -
  from assms(2) have "(pending_by_channel self)(message_channel_id message := None)
                        = pending_by_channel self"
    by (simp add: fun_upd_idem_iff)
  with assms show ?thesis
    by (simp add: handle_teto_bot_message_def dict_pop_def)
qed

lemma handle_teto_bot_message_present:
  assumes "user_id (author message) = miku_bot_id settings"
    and "pending_by_channel self (message_channel_id message) = Some pending"
  shows "\<exists>lines. build_teto_fear_lines settings = Some lines
           \<and> handle_teto_bot_message settings self message
               = Returns (False,
                   self\<lparr>pending_by_channel :=
                          (pending_by_channel self)(message_channel_id message := None),
                        tasks := tasks self
                          @ [RunSequence (message_channel_id message) (trigger_message_id pending)
                               lines]\<rparr>)"
proof -
  from build_teto_fear_lines_returns obtain lines where
    "build_teto_fear_lines settings = Some lines" by blast
  with assms show ?thesis
    by (simp add: handle_teto_bot_message_def dict_pop_def)
qed

text \<open>
  Claim C3. Let a channel hold a pending entry created at \<open>created_at pending\<close>, and let
  the expiry sweep run at time \<open>now\<close>. The difference \<open>now - created_at pending\<close> and
  its comparison with the timeout are the ones the code computes, in floating point. If the
  difference exceeds the timeout, taking the channel's entry afterwards yields nothing, and
  \<^verbatim>\<open>_handle_teto_bot_message\<close> on a partner message in that channel changes nothing. If
  it is at most the timeout, the take yields the entry and a second take on what the first
  one left yields nothing: \<^verbatim>\<open>_handle_teto_bot_message\<close> registers one task with the
  entry's trigger, and on a further partner message it changes nothing.
\<close>

theorem pending_take_after_sweep:
  fixes arith settings now self channel_id pending
  defines "swept \<equiv> expire_pending arith settings now self"
    and "age \<equiv> float_sub arith now (created_at pending)"
    and "timeout \<equiv> to_float arith (teto_wait_miku_timeout_seconds settings)"
  assumes "pending_by_channel self channel_id = Some pending"
  shows "(float_gt arith age timeout \<longrightarrow>
            fst (dict_pop (pending_by_channel swept) channel_id) = None
            \<and> (\<forall>message :: Message. user_id (author message) = miku_bot_id settings
                   \<and> message_channel_id message = channel_id \<longrightarrow>
                 handle_teto_bot_message settings swept message = Returns (False, swept)))
       \<and> (float_le arith age timeout \<longrightarrow>
            fst (dict_pop (pending_by_channel swept) channel_id) = Some pending
            \<and> fst (dict_pop (snd (dict_pop (pending_by_channel swept) channel_id)) channel_id)
                = None
            \<and> (\<forall>message :: Message. user_id (author message) = miku_bot_id settings
                   \<and> message_channel_id message = channel_id \<longrightarrow>
                 (\<exists>lines taken.
                    handle_teto_bot_message settings swept message = Returns (False, taken)
                    \<and> tasks taken = tasks self
                         @ [RunSequence channel_id (trigger_message_id pending) lines]
                    \<and> handle_teto_bot_message settings taken message = Returns (False, taken))))"
proof (intro conjI impI allI)
  assume "float_gt arith age timeout"
  with assms(4) have gone: "pending_by_channel swept channel_id = None"
    by (simp add: swept_def age_def timeout_def expire_pending_lookup)
  then show "fst (dict_pop (pending_by_channel swept) channel_id) = None"
    by (simp add: dict_pop_def)
  fix message :: Message
  assume "user_id (author message) = miku_bot_id settings \<and> message_channel_id message = channel_id"
  with gone show "handle_teto_bot_message settings swept message = Returns (False, swept)"
    by (simp add: handle_teto_bot_message_absent)
next
  assume "float_le arith age timeout"
  then have "\<not> float_gt arith age timeout"
    by (auto simp: float_le_def float_gt_def)
  with assms(4) have kept: "pending_by_channel swept channel_id = Some pending"
    by (simp add: swept_def age_def timeout_def expire_pending_lookup)
  then show "fst (dict_pop (pending_by_channel swept) channel_id) = Some pending"
    and "fst (dict_pop (snd (dict_pop (pending_by_channel swept) channel_id)) channel_id) = None"
    by (simp_all add: dict_pop_def)
  fix message :: Message
  assume m: "user_id (author message) = miku_bot_id settings \<and> message_channel_id message = channel_id"
  with kept handle_teto_bot_message_present[of message settings swept pending]
  obtain lines where first:
    "handle_teto_bot_message settings swept message
       = Returns (False,
           swept\<lparr>pending_by_channel := (pending_by_channel swept)(channel_id := None),
                 tasks := tasks swept @ [RunSequence channel_id (trigger_message_id pending) lines]\<rparr>)"
    by auto
  define taken where
    "taken = swept\<lparr>pending_by_channel := (pending_by_channel swept)(channel_id := None),
                    tasks := tasks swept @ [RunSequence channel_id (trigger_message_id pending) lines]\<rparr>"
  have "pending_by_channel taken (message_channel_id message) = None"
    using m by (simp add: taken_def)
  with m have "handle_teto_bot_message settings taken message = Returns (False, taken)"
    by (simp add: handle_teto_bot_message_absent)
  moreover have "tasks taken = tasks self @ [RunSequence channel_id (trigger_message_id pending) lines]"
    by (simp add: taken_def swept_def expire_pending_other_fields)
  ultimately show "\<exists>lines taken.
                    handle_teto_bot_message settings swept message = Returns (False, taken)
                    \<and> tasks taken = tasks self
                         @ [RunSequence channel_id (trigger_message_id pending) lines]
                    \<and> handle_teto_bot_message settings taken message = Returns (False, taken)"
    using first unfolding taken_def by blast
qed

text \<open>
  The theorem for an entry created at time 0 with a timeout of 5, swept at time 6 and at
  time 4; and for an entry created at the double nearest to 1.69502, swept at the double
  nearest to 6.69502: the exact difference is above 5, the computed one is 5, and the entry
  is kept and taken.
\<close>

theorem pending_take_after_sweep_witness:
  "fst (dict_pop (pending_by_channel (expire_pending exact_arith example_settings 6 (waiting_hook {}))) 5) = None
   \<and> handle_teto_bot_message example_settings (expire_pending exact_arith example_settings 6 (waiting_hook {}))
         (example_message miku_user)
       = Returns (False, expire_pending exact_arith example_settings 6 (waiting_hook {}))
   \<and> fst (dict_pop (pending_by_channel (expire_pending exact_arith example_settings 4 (waiting_hook {}))) 5)
       = Some \<lparr>created_at = 0, trigger_message_id = 900\<rparr>
   \<and> fst (dict_pop
            (snd (dict_pop (pending_by_channel (expire_pending exact_arith example_settings 4 (waiting_hook {}))) 5))
            5) = None
   \<and> 7537922394309505 / 2 ^ 50 - 3816845720192769 / 2 ^ 51 > (5 :: real)
   \<and> float_sub rounding_arith (7537922394309505 / 2 ^ 50) (3816845720192769 / 2 ^ 51) = 5
   \<and> fst (dict_pop
            (pending_by_channel
               (expire_pending rounding_arith example_settings (7537922394309505 / 2 ^ 50)
                  rounding_hook))
            5)
       = Some \<lparr>created_at = 3816845720192769 / 2 ^ 51, trigger_message_id = 900\<rparr>"
proof -
  have entry: "pending_by_channel (waiting_hook {}) 5 = Some \<lparr>created_at = 0, trigger_message_id = 900\<rparr>"
    by (simp add: waiting_hook_def)
  have late: "float_gt exact_arith
                (float_sub exact_arith 6 (created_at \<lparr>created_at = 0, trigger_message_id = 900\<rparr>))
                (to_float exact_arith (teto_wait_miku_timeout_seconds example_settings))"
    and early: "float_le exact_arith
                (float_sub exact_arith 4 (created_at \<lparr>created_at = 0, trigger_message_id = 900\<rparr>))
                (to_float exact_arith (teto_wait_miku_timeout_seconds example_settings))"
    and partner: "user_id (author (example_message miku_user)) = miku_bot_id example_settings
                   \<and> message_channel_id (example_message miku_user) = 5"
    by (simp_all add: fixture_eval)
  from pending_take_after_sweep[OF entry, where now = 6 and settings = example_settings
      and arith = exact_arith]
    pending_take_after_sweep[OF entry, where now = 4 and settings = example_settings
      and arith = exact_arith]
    late early partner
  have exact_part: "fst (dict_pop (pending_by_channel (expire_pending exact_arith example_settings 6 (waiting_hook {}))) 5) = None
   \<and> handle_teto_bot_message example_settings (expire_pending exact_arith example_settings 6 (waiting_hook {}))
         (example_message miku_user)
       = Returns (False, expire_pending exact_arith example_settings 6 (waiting_hook {}))
   \<and> fst (dict_pop (pending_by_channel (expire_pending exact_arith example_settings 4 (waiting_hook {}))) 5)
       = Some \<lparr>created_at = 0, trigger_message_id = 900\<rparr>
   \<and> fst (dict_pop
            (snd (dict_pop (pending_by_channel (expire_pending exact_arith example_settings 4 (waiting_hook {}))) 5))
            5) = None"
    by blast
  have rounded_entry: "pending_by_channel rounding_hook 5
                 = Some \<lparr>created_at = 3816845720192769 / 2 ^ 51, trigger_message_id = 900\<rparr>"
    by (simp add: rounding_hook_def)
  have difference: "7537922394309505 / 2 ^ 50 - 3816845720192769 / 2 ^ 51 > (5 :: real)"
    by simp
  have computed: "float_sub rounding_arith (7537922394309505 / 2 ^ 50) (3816845720192769 / 2 ^ 51) = 5"
    by (simp add: rounding_arith_def round_half_even_def)
  have timeout: "to_float rounding_arith (teto_wait_miku_timeout_seconds example_settings) = 5"
    by (simp add: rounding_arith_def example_settings_def)
  have equal: "float_compare rounding_arith 5 5 = FloatEqual"
    by (simp add: rounding_arith_def)
  have fresh: "float_le rounding_arith
     (float_sub rounding_arith (7537922394309505 / 2 ^ 50)
        (created_at \<lparr>created_at = 3816845720192769 / 2 ^ 51, trigger_message_id = 900\<rparr>))
     (to_float rounding_arith (teto_wait_miku_timeout_seconds example_settings))"
    by (simp only: float_le_def PendingDualMention.select_convs computed timeout equal) simp
  from pending_take_after_sweep[OF rounded_entry, where now = "7537922394309505 / 2 ^ 50"
      and settings = example_settings and arith = rounding_arith] fresh
  have "fst (dict_pop
            (pending_by_channel
               (expire_pending rounding_arith example_settings (7537922394309505 / 2 ^ 50)
                  rounding_hook))
            5)
       = Some \<lparr>created_at = 3816845720192769 / 2 ^ 51, trigger_message_id = 900\<rparr>"
    by blast
  with exact_part difference computed show ?thesis by blast
qed

text \<open>
  Claim C5, as amended. For a message whose channel is in the set of active channels,
  \<^verbatim>\<open>handle_message\<close> returns false, launches no sequence and records no pending
  entry: the task registry and the active set are unchanged. In the static-script hook the
  pending table is the one the expiry sweep at the top of the pass leaves, a sub-table of
  the old one (and the old one itself when the hook is disabled or the bot has no user);
  the generated-script hook has no pending table and its state is unchanged.
\<close>

theorem busy_channel_is_ignored:
  "(message_channel_id message \<in> active_channels self \<longrightarrow>
      (\<exists>self'. handle_message arith settings bot_user sweep_now record_now self message
                  = Returns (False, self')
         \<and> tasks self' = tasks self \<and> active_channels self' = active_channels self
         \<and> pending_by_channel self' \<subseteq>\<^sub>m pending_by_channel self
         \<and> self' = (if dual_mention_hook_enabled settings \<and> bot_user \<noteq> None
                     then expire_pending arith settings sweep_now self else self)))
   \<and> (message_channel_id message \<in> generated_active_channels generated_self \<longrightarrow>
        generated_handle_message settings bot_user generated_self message
          = (False, generated_self))"
proof -
  have "pending_by_channel (expire_pending arith settings sweep_now self) \<subseteq>\<^sub>m pending_by_channel self"
    by (auto simp: map_le_def expire_pending_lookup split: option.splits if_splits)
  then show ?thesis
    by (auto simp: handle_message_def generated_handle_message_def expire_pending_other_fields
             split: option.splits)
qed

text \<open>
  The theorem for a message on the busy channel 5 at time 4, when the pending entry of
  channel 5 is still fresh, and for the generated-script hook.
\<close>

theorem busy_channel_is_ignored_witness:
  "handle_message exact_arith example_settings (Some teto_user) 4 4 (waiting_hook {5})
       (example_message human_user)
     = Returns (False, expire_pending exact_arith example_settings 4 (waiting_hook {5}))
   \<and> pending_by_channel (expire_pending exact_arith example_settings 4 (waiting_hook {5})) 5
       = Some \<lparr>created_at = 0, trigger_message_id = 900\<rparr>
   \<and> generated_handle_message example_settings (Some miku_user)
         \<lparr>generated_active_channels = {5}, generated_tasks = []\<rparr> (example_message human_user)
       = (False, \<lparr>generated_active_channels = {5}, generated_tasks = []\<rparr>)"
proof -
  have busy: "message_channel_id (example_message human_user) \<in> active_channels (waiting_hook {5})"
    and generated_busy: "message_channel_id (example_message human_user)
           \<in> generated_active_channels \<lparr>generated_active_channels = {5}, generated_tasks = []\<rparr>"
    and enabled: "dual_mention_hook_enabled example_settings"
    by (simp_all add: fixture_eval)
  have kept: "pending_by_channel (expire_pending exact_arith example_settings 4 (waiting_hook {5})) 5
                = Some \<lparr>created_at = 0, trigger_message_id = 900\<rparr>"
    by (simp add: expire_pending_lookup fixture_eval)
  from busy_channel_is_ignored[where message = "example_message human_user"
      and self = "waiting_hook {5}" and settings = example_settings and bot_user = "Some teto_user"
      and sweep_now = 4 and record_now = 4 and arith = exact_arith]
    busy enabled
  have "handle_message exact_arith example_settings (Some teto_user) 4 4 (waiting_hook {5})
          (example_message human_user)
        = Returns (False, expire_pending exact_arith example_settings 4 (waiting_hook {5}))"
    by auto
  moreover from busy_channel_is_ignored[where message = "example_message human_user"
      and generated_self = "\<lparr>generated_active_channels = {5}, generated_tasks = []\<rparr>"
      and settings = example_settings and bot_user = "Some miku_user" and arith = exact_arith
      and self = "waiting_hook {5}" and sweep_now = 4 and record_now = 4]
    generated_busy
  have "generated_handle_message example_settings (Some miku_user)
         \<lparr>generated_active_channels = {5}, generated_tasks = []\<rparr> (example_message human_user)
       = (False, \<lparr>generated_active_channels = {5}, generated_tasks = []\<rparr>)"
    by blast
  ultimately show ?thesis using kept by blast
qed

text \<open>
  Claim C5 as stated fails when the table holds a stale entry: at time 10 the message on
  the busy channel 5 is ignored, but the sweep that runs before the busy check has removed
  the entry of channel 5, so the pending table is not left unchanged.
\<close>

theorem busy_channel_counterexample:
  "message_channel_id (example_message human_user) \<in> active_channels (waiting_hook {5})
   \<and> handle_message exact_arith example_settings (Some teto_user) 10 10 (waiting_hook {5})
         (example_message human_user)
       = Returns (False, expire_pending exact_arith example_settings 10 (waiting_hook {5}))
   \<and> pending_by_channel (waiting_hook {5}) 5 = Some \<lparr>created_at = 0, trigger_message_id = 900\<rparr>
   \<and> pending_by_channel (expire_pending exact_arith example_settings 10 (waiting_hook {5})) 5 = None"
  by (simp add: handle_message_def expire_pending_lookup expire_pending_other_fields fixture_eval)

text \<open>
  Claim C10. When the hook runs as the Teto identity on a channel that is not busy and a
  bot-authored message of the Miku identity arrives while the channel's pending entry has
  not expired, \<^verbatim>\<open>handle_message\<close> takes the entry, registers the task that runs Teto's
  lines with the trigger recorded in the entry, and returns false.
\<close>

theorem confirmation_returns_false:
  assumes "dual_mention_hook_enabled settings"
    and "bot_user = Some me" and "user_id me = teto_bot_id settings"
    and "message_channel_id message \<notin> active_channels self"
    and "user_bot (author message)" and "user_id (author message) = miku_bot_id settings"
    and "pending_by_channel self (message_channel_id message) = Some pending"
    and "\<not> float_gt arith (float_sub arith sweep_now (created_at pending))
             (to_float arith (teto_wait_miku_timeout_seconds settings))"
  shows "\<exists>lines self'. build_teto_fear_lines settings = Some lines
           \<and> handle_message arith settings bot_user sweep_now record_now self message
               = Returns (False, self')
           \<and> tasks self' = tasks self
                @ [RunSequence (message_channel_id message) (trigger_message_id pending) lines]
           \<and> pending_by_channel self'
                = (pending_by_channel (expire_pending arith settings sweep_now self))
                    (message_channel_id message := None)
           \<and> active_channels self' = active_channels self"
proof -
  from build_teto_fear_lines_returns obtain lines where
    lines: "build_teto_fear_lines settings = Some lines" by blast
  from assms(7,8) have
    "pending_by_channel (expire_pending arith settings sweep_now self) (message_channel_id message)
       = Some pending"
    by (simp add: expire_pending_lookup)
  with lines assms(1-6)
  have "handle_message arith settings bot_user sweep_now record_now self message
               = Returns (False,
                   (expire_pending arith settings sweep_now self)
                     \<lparr>pending_by_channel :=
                        (pending_by_channel (expire_pending arith settings sweep_now self))
                          (message_channel_id message := None),
                      tasks := tasks self
                        @ [RunSequence (message_channel_id message) (trigger_message_id pending)
                             lines]\<rparr>)"
    by (simp add: handle_message_def handle_as_teto_def handle_teto_bot_message_def dict_pop_def
                  expire_pending_other_fields Let_def)
  with lines show ?thesis by (simp add: expire_pending_other_fields)
qed

theorem confirmation_returns_false_witness:
  "(case handle_message exact_arith example_settings (Some teto_user) 4 4 (waiting_hook {})
           (example_message miku_user) of
      Returns (handled, self') \<Rightarrow>
        \<not> handled
        \<and> tasks self' = [RunSequence 5 900 (take 3 (TETO_FEAR_LINES 222))]
        \<and> pending_by_channel self' 5 = None
    | Raises exc \<Rightarrow> False
    | Diverges \<Rightarrow> False)"
proof -
  have lines: "build_teto_fear_lines example_settings = Some (take 3 (TETO_FEAR_LINES 222))"
    by (simp add: build_teto_fear_lines_def example_settings_def expand_lines_def py_slice_to_def
          TETO_FEAR_LINES_def)
  have facts: "dual_mention_hook_enabled example_settings"
    "user_id teto_user = teto_bot_id example_settings"
    "message_channel_id (example_message miku_user) \<notin> active_channels (waiting_hook {})"
    "user_bot (author (example_message miku_user))"
    "user_id (author (example_message miku_user)) = miku_bot_id example_settings"
    "pending_by_channel (waiting_hook {}) (message_channel_id (example_message miku_user))
       = Some \<lparr>created_at = 0, trigger_message_id = 900\<rparr>"
    "\<not> float_gt exact_arith
         (float_sub exact_arith 4 (created_at \<lparr>created_at = 0, trigger_message_id = 900\<rparr>))
         (to_float exact_arith (teto_wait_miku_timeout_seconds example_settings))"
    by (simp_all add: fixture_eval)
  from confirmation_returns_false[OF facts(1) refl facts(2-7), where record_now = 4] lines
  obtain self' where
    "handle_message exact_arith example_settings (Some teto_user) 4 4 (waiting_hook {})
       (example_message miku_user) = Returns (False, self')"
    "tasks self' = tasks (waiting_hook {})
       @ [RunSequence (message_channel_id (example_message miku_user))
            (trigger_message_id \<lparr>created_at = 0, trigger_message_id = 900\<rparr>)
            (take 3 (TETO_FEAR_LINES 222))]"
    "pending_by_channel self'
       = (pending_by_channel (expire_pending exact_arith example_settings 4 (waiting_hook {})))
           (message_channel_id (example_message miku_user) := None)"
    by auto
  then show ?thesis by (simp add: fixture_eval)
qed

lemma deliver_sent_active:
  "entry \<in> set (fst (deliver channel active index lines)) \<Longrightarrow> snd entry = active"
proof (induction lines arbitrary: index)
  case Nil
  then show ?case by simp
next
  case (Cons line lines)
  from Cons.prems Cons.IH[of "Suc index"] show ?case
    by (auto simp: Let_def split: result.splits prod.splits)
qed

text \<open>
  Claim C6. In a run of \<^verbatim>\<open>_run_sequence\<close> every delivered line is sent while the
  channel is in the set of active channels. Whenever the run ends, the set it leaves is
  the old set without the channel: after the last line, after a delivery raised an
  \<^verbatim>\<open>Exception\<close>, which is caught so that the run returns normally, and after a
  cancellation, which is the only thing the run lets through.
\<close>

theorem run_sequence_cleanup:
  fixes channel active_set channel_id trigger_id lines
  defines "run \<equiv> run_sequence channel active_set channel_id trigger_id lines"
    and "delivery \<equiv> deliver channel (insert channel_id active_set) 0 lines"
  shows "(\<forall>entry \<in> set (fst (snd run)). channel_id \<in> snd entry)
       \<and> (snd (snd run) \<noteq> Diverges \<longrightarrow> fst run = active_set - {channel_id} \<and> channel_id \<notin> fst run)
       \<and> (snd delivery = Returns () \<longrightarrow> snd (snd run) = Returns ())
       \<and> (\<forall>exc. snd delivery = Raises exc \<and> is_Exception exc \<longrightarrow> snd (snd run) = Returns ())
       \<and> (\<forall>exc. snd delivery = Raises exc \<and> \<not> is_Exception exc \<longrightarrow> snd (snd run) = Raises exc)
       \<and> (snd delivery = Diverges \<longrightarrow> snd (snd run) = Diverges)
       \<and> fst (snd run) = fst delivery"
proof -
  obtain sent outcome where d: "delivery = (sent, outcome)" by (cases delivery)
  have "\<forall>entry \<in> set sent. snd entry = insert channel_id active_set"
    using deliver_sent_active[of _ channel "insert channel_id active_set" 0 lines] d
    by (simp add: delivery_def)
  then have seen: "\<forall>entry \<in> set sent. channel_id \<in> snd entry" by simp
  have run: "run = (let (sent, outcome) = delivery
                    in case outcome of
                         Diverges \<Rightarrow> (insert channel_id active_set, sent, Diverges)
                       | Returns _ \<Rightarrow> (insert channel_id active_set - {channel_id}, sent, Returns ())
                       | Raises e \<Rightarrow>
                           if is_Exception e
                           then (insert channel_id active_set - {channel_id}, sent, Returns ())
                           else (insert channel_id active_set - {channel_id}, sent, Raises e))"
    by (simp only: run_def run_sequence_def delivery_def Let_def)
  show ?thesis
    using seen by (cases outcome) (auto simp: run d)
qed

text \<open>
  The theorem for three lines on a channel whose second \<^verbatim>\<open>send\<close> fails: one line is
  delivered, the error is swallowed and channel 5 is inactive again.
\<close>

theorem run_sequence_cleanup_witness:
  "run_sequence failing_channel {1} 5 900 [''a'', ''b'', ''c'']
     = ({1}, [(''a'', {5, 1})], Returns ())
   \<and> 5 \<notin> fst (run_sequence failing_channel {1} 5 900 [''a'', ''b'', ''c''])
   \<and> snd (deliver failing_channel {5, 1} 0 [''a'', ''b'', ''c'']) = Raises (Exception ''send failed'')"
proof -
  have run: "run_sequence failing_channel {1} 5 900 [''a'', ''b'', ''c'']
               = ({1}, [(''a'', {5, 1})], Returns ())"
    by (simp add: run_sequence_def failing_channel_def)
  have raised: "snd (deliver failing_channel {5, 1} 0 [''a'', ''b'', ''c''])
                  = Raises (Exception ''send failed'')"
    by (simp add: failing_channel_def)
  from run_sequence_cleanup[of failing_channel "{1}" 5 900 "[''a'', ''b'', ''c'']"] run
  have "5 \<notin> fst (run_sequence failing_channel {1} 5 900 [''a'', ''b'', ''c''])"
    by simp
  with run raised show ?thesis by blast
qed

text \<open>
  Claim C8. When the callback of the generated-script hook raises an \<^verbatim>\<open>Exception\<close>,
  \<^verbatim>\<open>_build_miku_tease_lines\<close> returns the empty list and \<^verbatim>\<open>_run_miku_sequence\<close>
  returns without touching the set of active channels and without delivering a line. When
  the callback is \<^verbatim>\<open>generate_miku_tease_lines\<close>, whatever it raises was raised by the
  generation call or is one of the three validation failures, and these are
  \<^verbatim>\<open>Exception\<close>s.
\<close>

theorem generated_strategy_failure_is_skipped:
  assumes "build message (max 1 (teto_fear_message_count settings)) = Raises exc"
    and "is_Exception exc"
  shows "generated_build_miku_tease_lines settings (Some build) message = Returns []
       \<and> run_miku_sequence settings (Some build) channel active_set message
           = (active_set, [], Returns ())
       \<and> (\<forall>generator lib.
             build = generate_miku_tease_lines generator lib \<longrightarrow>
               (\<exists>prompt. client_generate generator prompt = Raises exc)
               \<or> exc \<in> {empty_output, unparseable_output, ignored_material})
       \<and> is_Exception empty_output \<and> is_Exception unparseable_output
       \<and> is_Exception ignored_material"
proof -
  from assms have build: "generated_build_miku_tease_lines settings (Some build) message = Returns []"
    by (simp add: generated_build_miku_tease_lines_def)
  then have "run_miku_sequence settings (Some build) channel active_set message
               = (active_set, [], Returns ())"
    by (simp add: run_miku_sequence_def)
  moreover have "(\<exists>prompt. client_generate generator prompt = Raises exc)
               \<or> exc \<in> {empty_output, unparseable_output, ignored_material}"
    if "build = generate_miku_tease_lines generator lib" for generator lib
  proof -
    from assms(1) that
    have "generate_miku_tease_lines generator lib message (max 1 (teto_fear_message_count settings))
            = Raises exc" by simp
    then show ?thesis
      using parse_lines_raises
      by (fastforce simp: generate_miku_tease_lines_def Let_def split: result.splits)
  qed
  ultimately show ?thesis using build validation_failures_are_Exceptions by blast
qed

text \<open>
  The theorem for the message "I have an exam tomorrow" and the reply "Hey there", which
  ignores the material words.
\<close>

theorem generated_strategy_failure_is_skipped_witness:
  "generate_miku_tease_lines (example_generator ''Hey there'') plain_text_lib
       (example_message human_user) 3
     = Raises ignored_material
   \<and> run_miku_sequence example_settings
         (Some (generate_miku_tease_lines (example_generator ''Hey there'') plain_text_lib))
         failing_channel {} (example_message human_user)
       = ({}, [], Returns ())"
proof -
  have words: "extract_material_words ''I have an exam tomorrow'' = [''exam'', ''tomorrow'']"
    by (simp add: extract_material_words_def lower_def lower_char_def is_material_char_def
          MATERIAL_STOPWORDS_def)
  have body: "strip (normalize_model_reply (example_generator ''Hey there'') ''Hey there'') \<noteq> []"
    by (simp add: string_eval fixture_eval)
  have parsed: "extract_lines_from_text plain_text_lib
                  (strip (normalize_model_reply (example_generator ''Hey there'') ''Hey there''))
                = [''Hey there'']"
    by (simp add: extract_lines_from_text_def string_eval fixture_eval)
  have rejected: "parse_lines (example_generator ''Hey there'') plain_text_lib ''Hey there'' 3 111
                    [''exam'', ''tomorrow'']
                  = Raises ignored_material"
    by (simp add: parse_lines_parsed[OF body parsed _ refl] string_eval has_material_overlap_def)
  have failed: "generate_miku_tease_lines (example_generator ''Hey there'') plain_text_lib
                  (example_message human_user) 3
                = Raises ignored_material"
    using rejected
    by (simp add: generate_miku_tease_lines_def Let_def example_message_def strip_def is_space_def
          whitespace_def words example_generator_def example_settings_def)
  have count: "max 1 (teto_fear_message_count example_settings) = 3"
    by (simp add: example_settings_def)
  from generated_strategy_failure_is_skipped[
      where build = "generate_miku_tease_lines (example_generator ''Hey there'') plain_text_lib"
        and message = "example_message human_user" and settings = example_settings
        and exc = ignored_material and channel = failing_channel and active_set = "{}"]
    failed count validation_failures_are_Exceptions(3)
  have "run_miku_sequence example_settings
         (Some (generate_miku_tease_lines (example_generator ''Hey there'') plain_text_lib))
         failing_channel {} (example_message human_user)
       = ({}, [], Returns ())"
    by simp
  with failed show ?thesis by blast
qed

end
